theory Spec2Isabelle
  imports Main "HOL-Library.Word"
begin

section \<open>The submit pipeline of static/main.js\<close>

text \<open>
  The theory embeds the current revision of \<^verbatim>\<open>static/main.js\<close> (the second document of
  the file, lines 119 to 326): the fingerprint of the form, the duplicate guard, the
  static phase of the submit handler, the renderer and the continuation that patches the
  answer of \<^verbatim>\<open>/analyze_ai\<close> into the rendered report. The two earlier revisions kept
  beside it (the first document of the file, and the handler without guard) are not modelled.
\<close>

subsection \<open>JavaScript strings\<close>

text \<open>
  A JavaScript string is a sequence of UTF-16 code units, and \<^verbatim>\<open>startsWith\<close> and
  \<^verbatim>\<open>join\<close> work on code units. A string is therefore a list of 16-bit words.
\<close>

type_synonym jsstring = "16 word list"

definition ascii :: "string \<Rightarrow> jsstring" where
  "ascii s = map (\<lambda>c. of_nat (of_char c)) s"

text \<open>\<^verbatim>\<open>v.startsWith(g)\<close>: the first \<open>length g\<close> code units of \<open>v\<close> are \<open>g\<close>.\<close>

definition startsWith :: "jsstring \<Rightarrow> jsstring \<Rightarrow> bool" where
  "startsWith v g = (take (length g) v = g)"

text \<open>
  The sentinel glyphs of lines 219 to 223, as the code units of the literals: the cross mark
  U+274C, the warning sign U+26A0 followed by the variation selector U+FE0F, and the brain
  U+1F9E0 as its surrogate pair.
\<close>

definition failGlyph :: jsstring where
  "failGlyph = [0x274C]"

definition warnGlyph :: jsstring where
  "warnGlyph = [0x26A0, 0xFE0F]"

definition aiGlyph :: jsstring where
  "aiGlyph = [0xD83E, 0xDDE0]"

subsection \<open>Number to string\<close>

text \<open>
  \<^verbatim>\<open>join\<close> converts each element with ToString. For an integer below \<open>10^21\<close> in
  absolute value (every file size and timestamp is) that is its decimal numeral, with a
  leading minus sign when negative.
\<close>

definition digit :: "nat \<Rightarrow> 16 word" where
  "digit d = of_nat (48 + d)"

function digits :: "nat \<Rightarrow> jsstring" where
  "digits n = (if n < 10 then [digit n] else digits (n div 10) @ [digit (n mod 10)])"
  by pat_completeness auto
termination
  by (relation "measure (\<lambda>n. n)") auto

declare digits.simps [simp del]

definition numberToString :: "int \<Rightarrow> jsstring" where
  "numberToString i = (if i < 0 then 0x2D # digits (nat (- i)) else digits (nat i))"

text \<open>The elements of the array of lines 136 to 144 are strings and numbers.\<close>

datatype jsval = Str jsstring | Num int

fun toString :: "jsval \<Rightarrow> jsstring" where
  "toString (Str s) = s"
| "toString (Num i) = numberToString i"

text \<open>\<^verbatim>\<open>Array.prototype.join\<close> on the converted elements.\<close>

fun join :: "jsstring \<Rightarrow> jsstring list \<Rightarrow> jsstring" where
  "join sep [] = []"
| "join sep [x] = x"
| "join sep (x # y # ys) = x @ sep @ join sep (y # ys)"

subsection \<open>Fingerprint (lines 132 to 144)\<close>

record jsfile =
  fileName :: jsstring
  fileSize :: nat
  fileLastModified :: int

text \<open>
  The live form state the handler reads: the four text inputs and \<^verbatim>\<open>fileInput.files[0]\<close>,
  which is undefined (\<open>None\<close>) when no file is selected.
\<close>

record snapshot =
  nameValue :: jsstring
  emailValue :: jsstring
  teamValue :: jsstring
  crNumberValue :: jsstring
  sqlFile :: "jsfile option"

definition separator :: jsstring where
  "separator = [0x7C]"

definition components :: "snapshot \<Rightarrow> jsval list" where
  "components s =
     [Str (nameValue s),
      Str (emailValue s),
      Str (teamValue s),
      Str (crNumberValue s),
      (case sqlFile s of Some f \<Rightarrow> Str (fileName f) | None \<Rightarrow> Str []),
      (case sqlFile s of Some f \<Rightarrow> Num (int (fileSize f)) | None \<Rightarrow> Str []),
      (case sqlFile s of Some f \<Rightarrow> Num (fileLastModified f) | None \<Rightarrow> Str [])]"

definition computeFingerprint :: "snapshot \<Rightarrow> jsstring" where
  "computeFingerprint s = join separator (map toString (components s))"

subsection \<open>Responses of the two endpoints\<close>

text \<open>
  The value \<^verbatim>\<open>response.json()\<close> resolves to. \<^verbatim>\<open>error\<close> and \<^verbatim>\<open>pdf_url\<close> are optional by
  design. \<^verbatim>\<open>summary\<close> and \<^verbatim>\<open>results\<close> are optional here because the handler dereferences
  them without a check: reading \<^verbatim>\<open>data.summary.total\<close> or calling \<^verbatim>\<open>data.results.forEach\<close>
  on a body without the property raises a TypeError inside the \<^verbatim>\<open>try\<close> block.
\<close>

record summary =
  total :: int
  passed :: int
  failed :: int

record result =
  query :: jsstring
  validations :: "jsstring list"

record validationResponse =
  vr_error :: "jsstring option"
  vr_summary :: "summary option"
  vr_results :: "result list option"
  vr_pdf_url :: "jsstring option"

record insight =
  insight_type :: jsstring
  insight_message :: jsstring
  insight_severity :: jsstring

record aiSummary =
  ai_summary :: "jsstring option"
  ai_insights :: "insight list option"

record aiResponse =
  ar_error :: "jsstring option"
  ar_summary :: "aiSummary option"
  ar_results :: "result list option"

text \<open>
  How a request ends: \<^verbatim>\<open>fetch\<close> or \<^verbatim>\<open>json()\<close> rejects (offline, timeout, a body that is
  not JSON), or the body decodes.
\<close>

datatype 'a settled = Rejected | Fulfilled 'a

text \<open>The string of an optional property when \<^verbatim>\<open>if (x)\<close> takes it for true.\<close>

definition truthyString :: "jsstring option \<Rightarrow> jsstring option" where
  "truthyString x = (case x of None \<Rightarrow> None | Some s \<Rightarrow> if s = [] then None else Some s)"

subsection \<open>The page\<close>

text \<open>
  The elements the handler touches, and the global \<^verbatim>\<open>lastFingerprint\<close>. The report that
  line 235 assigns to \<^verbatim>\<open>output.innerHTML\<close> is kept as the element tree that the markup of
  lines 194 to 233 denotes: the placeholder \<^verbatim>\<open>ai-loading-container\<close>, the empty
  \<^verbatim>\<open>ai-summary-container\<close>, the summary list, and one \<^verbatim>\<open>result-card\<close> per result whose
  \<^verbatim>\<open>data-index\<close> is its position. Query texts and messages are taken to hold no markup
  of their own, so that parsing gives back this tree; the opacity transitions of lines 287
  to 289 and 307 to 312 are presentation only and left out.
\<close>

datatype display = DisplayUnset | DisplayNone | DisplayBlock | DisplayInlineBlock

datatype clickHandler = OpenLocation jsstring

datatype cls = ClsError | ClsWarning | ClsAiMsg | ClsSuccess

record li =
  li_class :: cls
  li_text :: jsstring

record card =
  card_query :: jsstring
  validationList :: "li list"

datatype placeholderContent = Thinking | InnerHTML jsstring | InnerText jsstring

datatype aiBlock = SummaryCard jsstring | SectionTitle | InsightCard insight | Divider

record report =
  loadingDisplay :: display
  loadingContent :: placeholderContent
  aiSummaryContainer :: "aiBlock list"
  summaryList :: summary
  cardContainer :: "card list"

datatype outputContent = Html jsstring | Report report

record state =
  lastFingerprint :: "jsstring option"
  warningDisplay :: display
  warningText :: jsstring
  resultsDisplay :: display
  validationOutput :: outputContent
  downloadDisplay :: display
  downloadOnclick :: "clickHandler option"

text \<open>The literals the handler writes.\<close>

definition duplicateMessage :: jsstring where
  "duplicateMessage = warnGlyph @ ascii
     '' You have already validated this file with these specific details. Please upload a new file or modify the details to validate again.''"

definition validatingHtml :: jsstring where
  "validatingHtml = ascii ''<p>'' @ [0xD83D, 0xDD04] @ ascii '' Validating, please wait...</p>''"

definition errorParagraph :: "jsstring \<Rightarrow> jsstring" where
  \<open>errorParagraph e = ascii ''<p class="error">'' @ e @ ascii ''</p>''\<close>

definition genericErrorHtml :: jsstring where
  \<open>genericErrorHtml = ascii ''<p class="error">'' @ failGlyph @ ascii '' An error occurred.</p>''\<close>

definition aiFailedHtml :: "jsstring \<Rightarrow> jsstring" where
  \<open>aiFailedHtml e = ascii ''<p style="color:red">AI Analysis failed: '' @ e @ ascii ''</p>''\<close>

subsection \<open>Result renderer (lines 190 to 233)\<close>

definition classify :: "jsstring \<Rightarrow> cls" where
  "classify v =
     (if startsWith v failGlyph then ClsError
      else if startsWith v warnGlyph then ClsWarning
      else if startsWith v aiGlyph then ClsAiMsg
      else ClsSuccess)"

definition renderItem :: "jsstring \<Rightarrow> li" where
  "renderItem v = \<lparr>li_class = classify v, li_text = v\<rparr>"

definition renderCard :: "result \<Rightarrow> card" where
  "renderCard item =
     \<lparr>card_query = query item, validationList = map renderItem (validations item)\<rparr>"

text \<open>\<open>None\<close> is the TypeError of a body without \<^verbatim>\<open>summary\<close> or without \<^verbatim>\<open>results\<close>.\<close>

definition renderStatic :: "validationResponse \<Rightarrow> report option" where
  "renderStatic data =
     (case vr_summary data of
        None \<Rightarrow> None
      | Some sm \<Rightarrow>
          (case vr_results data of
             None \<Rightarrow> None
           | Some rs \<Rightarrow>
               Some \<lparr>loadingDisplay = DisplayUnset, loadingContent = Thinking,
                     aiSummaryContainer = [], summaryList = sm,
                     cardContainer = map renderCard rs\<rparr>))"

subsection \<open>Effects of the submit handler\<close>

text \<open>
  What a run of the handler does, in the order it does it: writes to the page, the
  assignment to \<^verbatim>\<open>lastFingerprint\<close>, and the requests it issues. An action is one
  statement (or group of statements) of the source; it returns the new state and the events
  it added.
\<close>

datatype endpoint = Validate | AnalyzeAI

datatype event =
    WarningCleared
  | WarningShown
  | Disarmed
  | ResultsShown
  | OutputSet outputContent
  | Requested endpoint snapshot
  | Committed jsstring
  | Armed jsstring

type_synonym action = "state \<Rightarrow> state \<times> event list"

fun inOrder :: "action list \<Rightarrow> action" where
  "inOrder [] p = (p, [])"
| "inOrder (a # as) p =
     (case a p of (p1, t1) \<Rightarrow> (case inOrder as p1 of (p2, t2) \<Rightarrow> (p2, t1 @ t2)))"

text \<open>Lines 149 and 150.\<close>

definition clearWarning :: action where
  "clearWarning p = (p\<lparr>warningDisplay := DisplayNone, warningText := []\<rparr>, [WarningCleared])"

text \<open>Lines 153 and 154.\<close>

definition showWarning :: action where
  "showWarning p =
     (p\<lparr>warningText := duplicateMessage, warningDisplay := DisplayBlock\<rparr>, [WarningShown])"

text \<open>Lines 168 and 169: the download gate is disarmed.\<close>

definition disarm :: action where
  "disarm p = (p\<lparr>downloadDisplay := DisplayNone, downloadOnclick := None\<rparr>, [Disarmed])"

text \<open>Line 171.\<close>

definition showResults :: action where
  "showResults p = (p\<lparr>resultsDisplay := DisplayBlock\<rparr>, [ResultsShown])"

text \<open>An assignment to \<^verbatim>\<open>output.innerHTML\<close> (lines 172, 184, 235 and 324).\<close>

definition setOutput :: "outputContent \<Rightarrow> action" where
  "setOutput c p = (p\<lparr>validationOutput := c\<rparr>, [OutputSet c])"

text \<open>A call of \<^verbatim>\<open>fetch\<close> with the form payload (lines 176 and 245).\<close>

definition request :: "endpoint \<Rightarrow> snapshot \<Rightarrow> action" where
  "request ep formData p = (p, [Requested ep formData])"

text \<open>Line 188.\<close>

definition commit :: "jsstring \<Rightarrow> action" where
  "commit fp p = (p\<lparr>lastFingerprint := Some fp\<rparr>, [Committed fp])"

text \<open>Lines 239 and 240: the download gate is armed.\<close>

definition arm :: "jsstring \<Rightarrow> action" where
  "arm url p =
     (p\<lparr>downloadDisplay := DisplayInlineBlock, downloadOnclick := Some (OpenLocation url)\<rparr>,
      [Armed url])"

definition requests :: "event list \<Rightarrow> (endpoint \<times> snapshot) list" where
  "requests tr = concat (map (\<lambda>e. case e of Requested ep fd \<Rightarrow> [(ep, fd)] | _ \<Rightarrow> []) tr)"

subsection \<open>Submit handler (lines 129 to 326)\<close>

text \<open>
  The synchronous part, up to \<^verbatim>\<open>await fetch("/validate")\<close>. It ends either by the
  \<^verbatim>\<open>return\<close> of the guard (\<open>None\<close>) or suspended with \<^verbatim>\<open>currentFingerprint\<close> and
  \<^verbatim>\<open>formData\<close> in its closure. \<^verbatim>\<open>lastFingerprint\<close> starts as \<^verbatim>\<open>null\<close>, which is
  \<open>None\<close> and equal to no string.
\<close>

definition onSubmit :: "snapshot \<Rightarrow> state \<Rightarrow> (state \<times> event list) \<times> (jsstring \<times> snapshot) option" where
  "onSubmit s p =
     (let currentFingerprint = computeFingerprint s in
      if Some currentFingerprint = lastFingerprint p
      then (inOrder [clearWarning, showWarning] p, None)
      else (inOrder [clearWarning, disarm, showResults, setOutput (Html validatingHtml),
                     request Validate s] p,
            Some (currentFingerprint, s)))"

text \<open>Lines 188 to 248: the decoded body carries no error.\<close>

definition staticDone :: "jsstring \<Rightarrow> snapshot \<Rightarrow> validationResponse \<Rightarrow> action" where
  "staticDone currentFingerprint formData data =
     (case renderStatic data of
        None \<Rightarrow> inOrder [commit currentFingerprint, setOutput (Html genericErrorHtml)]
      | Some html \<Rightarrow>
          inOrder ([commit currentFingerprint, setOutput (Report html)]
                   @ (case truthyString (vr_pdf_url data) of
                        Some url \<Rightarrow> [arm url]
                      | None \<Rightarrow> [])
                   @ [request AnalyzeAI formData]))"

text \<open>
  The continuation of the handler once the static request has settled: the body of the
  \<^verbatim>\<open>try\<close> after the two awaits, and the \<^verbatim>\<open>catch\<close> of line 323.
\<close>

definition onStaticSettled ::
    "jsstring \<Rightarrow> snapshot \<Rightarrow> validationResponse settled \<Rightarrow> action" where
  "onStaticSettled currentFingerprint formData outcome =
     (case outcome of
        Rejected \<Rightarrow> setOutput (Html genericErrorHtml)
      | Fulfilled data \<Rightarrow>
          (case truthyString (vr_error data) of
             Some e \<Rightarrow> setOutput (Html (errorParagraph e))
           | None \<Rightarrow> staticDone currentFingerprint formData data))"

text \<open>One whole run of the handler, with how its static request ends.\<close>

definition submit :: "snapshot \<Rightarrow> validationResponse settled \<Rightarrow> action" where
  "submit s outcome p =
     (case onSubmit s p of
        (r, None) \<Rightarrow> r
      | ((p1, t1), Some (fp, formData)) \<Rightarrow>
          (case onStaticSettled fp formData outcome p1 of (p2, t2) \<Rightarrow> (p2, t1 @ t2)))"

text \<open>The listeners of lines 122 to 127.\<close>

definition onInput :: "state \<Rightarrow> state" where
  "onInput p = p\<lparr>warningDisplay := DisplayNone\<rparr>"

subsection \<open>AI patch applier (lines 250 to 321)\<close>

definition applyAISummary :: "aiSummary \<Rightarrow> aiBlock list" where
  "applyAISummary sm =
     (case truthyString (ai_summary sm) of Some t \<Rightarrow> [SummaryCard t] | None \<Rightarrow> [])
     @ (case ai_insights sm of
          Some ins \<Rightarrow>
            if length ins > 0 then [SectionTitle] @ map InsightCard ins @ [Divider] else []
        | None \<Rightarrow> [])"

text \<open>Lines 304 to 309: one \<^verbatim>\<open>li\<close> of class \<^verbatim>\<open>ai-msg\<close> is appended to the list of the card.\<close>

definition appendChild :: "card \<Rightarrow> jsstring \<Rightarrow> card" where
  "appendChild c msg =
     c\<lparr>validationList := validationList c @ [\<lparr>li_class = ClsAiMsg, li_text = msg\<rparr>]\<rparr>"

text \<open>
  The body of the loop of line 295 for one result: \<^verbatim>\<open>cards[index]\<close> is undefined, and
  the result skipped, when there is no card at that position.
\<close>

definition patchCard :: "nat \<Rightarrow> result \<Rightarrow> card list \<Rightarrow> card list" where
  "patchCard index item cards =
     (let aiMessages = filter (\<lambda>v. startsWith v aiGlyph) (validations item) in
      if length aiMessages > 0 \<and> index < length cards
      then cards[index := foldl appendChild (cards ! index) aiMessages]
      else cards)"

fun patchFrom :: "nat \<Rightarrow> result list \<Rightarrow> card list \<Rightarrow> card list" where
  "patchFrom index [] cards = cards"
| "patchFrom index (item # rest) cards = patchFrom (Suc index) rest (patchCard index item cards)"

definition applyPerQueryInsights :: "result list \<Rightarrow> card list \<Rightarrow> card list" where
  "applyPerQueryInsights aiResults cards = patchFrom 0 aiResults cards"

text \<open>
  The callback of line 250. The flag says that it threw: on a page whose output is not a
  report \<^verbatim>\<open>getElementById("ai-loading-container")\<close> is \<^verbatim>\<open>null\<close>, and a body without
  \<^verbatim>\<open>summary\<close> or \<^verbatim>\<open>results\<close> raises where it is dereferenced, after the writes before it.
\<close>

definition aiThen :: "aiResponse \<Rightarrow> state \<Rightarrow> state \<times> bool" where
  "aiThen aiData p =
     (case validationOutput p of
        Html h \<Rightarrow> (p, True)
      | Report rep \<Rightarrow>
          (case truthyString (ar_error aiData) of
             Some e \<Rightarrow>
               (p\<lparr>validationOutput := Report (rep\<lparr>loadingContent := InnerHTML (aiFailedHtml e)\<rparr>)\<rparr>,
                False)
           | None \<Rightarrow>
               (let rep1 = rep\<lparr>loadingDisplay := DisplayNone\<rparr> in
                case ar_summary aiData of
                  None \<Rightarrow> (p\<lparr>validationOutput := Report rep1\<rparr>, True)
                | Some sm \<Rightarrow>
                    (let rep2 = rep1\<lparr>aiSummaryContainer := applyAISummary sm\<rparr> in
                     case ar_results aiData of
                       None \<Rightarrow> (p\<lparr>validationOutput := Report rep2\<rparr>, True)
                     | Some aiResults \<Rightarrow>
                         (p\<lparr>validationOutput :=
                              Report (rep2\<lparr>cardContainer :=
                                applyPerQueryInsights aiResults (cardContainer rep2)\<rparr>)\<rparr>,
                          False)))))"

text \<open>
  The \<^verbatim>\<open>catch\<close> of line 318: the text of the placeholder is set to the empty string. Without
  the placeholder on the page the callback throws itself and nothing changes.
\<close>

definition aiCatch :: "state \<Rightarrow> state" where
  "aiCatch p =
     (case validationOutput p of
        Html h \<Rightarrow> p
      | Report rep \<Rightarrow> p\<lparr>validationOutput := Report (rep\<lparr>loadingContent := InnerText []\<rparr>)\<rparr>)"

text \<open>The detached continuation, run when the request to \<^verbatim>\<open>/analyze_ai\<close> settles.\<close>

definition onAISettled :: "aiResponse settled \<Rightarrow> state \<Rightarrow> state" where
  "onAISettled outcome p =
     (case outcome of
        Rejected \<Rightarrow> aiCatch p
      | Fulfilled aiData \<Rightarrow>
          (case aiThen aiData p of (p1, threw) \<Rightarrow> if threw then aiCatch p1 else p1))"

subsection \<open>Predicates used in the statements\<close>



definition disarmed :: "state \<Rightarrow> bool" where
  "disarmed p = (downloadDisplay p = DisplayNone \<and> downloadOnclick p = None)"

definition armedTo :: "jsstring \<Rightarrow> state \<Rightarrow> bool" where
  "armedTo url p =
     (downloadDisplay p = DisplayInlineBlock \<and> downloadOnclick p = Some (OpenLocation url))"

text \<open>The placeholder shows a notice when it holds some text or markup of its own.\<close>

definition showsNotice :: "placeholderContent \<Rightarrow> bool" where
  "showsNotice c =
     (case c of Thinking \<Rightarrow> False | InnerHTML h \<Rightarrow> h \<noteq> [] | InnerText t \<Rightarrow> t \<noteq> [])"

definition placeholderOf :: "state \<Rightarrow> placeholderContent option" where
  "placeholderOf p =
     (case validationOutput p of Html h \<Rightarrow> None | Report rep \<Rightarrow> Some (loadingContent rep))"

text \<open>The messages of a result that the patch appends, as list items.\<close>

definition aiItems :: "result \<Rightarrow> li list" where
  "aiItems item =
     map (\<lambda>msg. \<lparr>li_class = ClsAiMsg, li_text = msg\<rparr>)
       (filter (\<lambda>v. startsWith v aiGlyph) (validations item))"

text \<open>The guard returns at line 155: the run ends without a suspended continuation.\<close>

definition blocks :: "snapshot \<Rightarrow> state \<Rightarrow> bool" where
  "blocks s p = (snd (onSubmit s p) = None)"

definition cardsOf :: "state \<Rightarrow> card list" where
  "cardsOf p = (case validationOutput p of Html h \<Rightarrow> [] | Report rep \<Rightarrow> cardContainer rep)"

subsection \<open>Concrete inputs\<close>

text \<open>A page on which nothing has been submitted yet.\<close>

definition freshPage :: state where
  "freshPage =
     \<lparr>lastFingerprint = None, warningDisplay = DisplayNone, warningText = [],
      resultsDisplay = DisplayNone, validationOutput = Html [],
      downloadDisplay = DisplayNone, downloadOnclick = None\<rparr>"

definition formA :: snapshot where
  "formA =
     \<lparr>nameValue = ascii ''A'', emailValue = ascii ''a@x.com'', teamValue = ascii ''T'',
      crNumberValue = ascii ''CR1'',
      sqlFile = Some \<lparr>fileName = ascii ''q.sql'', fileSize = 10, fileLastModified = 1000\<rparr>\<rparr>"

definition responseA :: validationResponse where
  "responseA =
     \<lparr>vr_error = None,
      vr_summary = Some \<lparr>total = 1, passed = 0, failed = 1\<rparr>,
      vr_results = Some [\<lparr>query = ascii ''SELECT 1'',
                          validations = [failGlyph @ ascii '' syntax error'']\<rparr>],
      vr_pdf_url = Some (ascii ''/r/1.pdf'')\<rparr>"

definition errorResponse :: validationResponse where
  "errorResponse =
     \<lparr>vr_error = Some (ascii ''empty file''), vr_summary = None, vr_results = None,
      vr_pdf_url = None\<rparr>"

definition aiTimeout :: aiResponse where
  "aiTimeout =
     \<lparr>ar_error = Some (ascii ''model timeout''), ar_summary = None, ar_results = None\<rparr>"



text \<open>
  A result whose only message carries the AI glyph, as the static answer and as the
  answer of \<^verbatim>\<open>/analyze_ai\<close> for the same query.
\<close>

definition hintResult :: result where
  "hintResult = \<lparr>query = ascii ''SELECT 1'', validations = [aiGlyph @ ascii '' add an index'']\<rparr>"

definition plainResult :: result where
  "plainResult =
     \<lparr>query = ascii ''SELECT 2'',
      validations = [warnGlyph @ ascii '' slow'', aiGlyph @ ascii '' use a join'', ascii ''ok'']\<rparr>"

definition hintStatic :: validationResponse where
  "hintStatic =
     \<lparr>vr_error = None, vr_summary = Some \<lparr>total = 1, passed = 1, failed = 0\<rparr>,
      vr_results = Some [hintResult], vr_pdf_url = None\<rparr>"

definition hintAi :: aiResponse where
  "hintAi =
     \<lparr>ar_error = None,
      ar_summary = Some \<lparr>ai_summary = None, ai_insights = None\<rparr>,
      ar_results = Some [hintResult]\<rparr>"

text \<open>
  The second form differs from the first in the team only. \<open>reportA\<close> is the report of the
  first answer and \<open>pageA\<close> the page after the first form has been validated with it.
\<close>

definition formB :: snapshot where
  "formB = formA\<lparr>teamValue := ascii ''U''\<rparr>"

definition reportA :: report where
  "reportA =
     \<lparr>loadingDisplay = DisplayUnset, loadingContent = Thinking, aiSummaryContainer = [],
      summaryList = \<lparr>total = 1, passed = 0, failed = 1\<rparr>,
      cardContainer =
        [\<lparr>card_query = ascii ''SELECT 1'',
          validationList = [\<lparr>li_class = ClsError, li_text = failGlyph @ ascii '' syntax error''\<rparr>]\<rparr>]\<rparr>"

definition pageA :: state where
  "pageA = fst (submit formA (Fulfilled responseA) freshPage)"

section \<open>Properties\<close>

subsection \<open>Fingerprint\<close>



















subsection \<open>Classification\<close>

lemma startsWith_append: "startsWith (g @ rest) g"
  by (simp add: startsWith_def)

lemma startsWith_take: "length g \<le> n \<Longrightarrow> startsWith (take n v) g = startsWith v g"
  by (simp add: startsWith_def min_def)

lemma classify_take2: "classify (take 2 v) = classify v"
  by (simp add: classify_def startsWith_take failGlyph_def warnGlyph_def aiGlyph_def)

text \<open>
  Claim C6. The class of a message is decided by its first two code units alone, in the
  order failure, warning, AI, success: a message that starts with the failure glyph is an
  error whatever follows it (a warning glyph included), and a message that starts with none
  of the three glyphs is a success.
\<close>

theorem classify_by_leading_glyph:
  "classify (failGlyph @ rest) = ClsError \<and>
   (startsWith v failGlyph \<longrightarrow> classify v = ClsError) \<and>
   (\<not> startsWith v failGlyph \<and> startsWith v warnGlyph \<longrightarrow> classify v = ClsWarning) \<and>
   (\<not> startsWith v failGlyph \<and> \<not> startsWith v warnGlyph \<and> startsWith v aiGlyph
      \<longrightarrow> classify v = ClsAiMsg) \<and>
   (\<not> startsWith v failGlyph \<and> \<not> startsWith v warnGlyph \<and> \<not> startsWith v aiGlyph
      \<longrightarrow> classify v = ClsSuccess) \<and>
   (take 2 v = take 2 w \<longrightarrow> classify v = classify w)"
proof -
  have "classify (failGlyph @ rest) = ClsError"
    by (simp add: classify_def startsWith_append)
  moreover have "take 2 v = take 2 w \<longrightarrow> classify v = classify w"
    by (metis classify_take2)
  ultimately show ?thesis by (simp add: classify_def)
qed

text \<open>
  The theorem at a failure message with a warning glyph at its end, at a message without
  glyph, and at two warnings that differ after the glyph.
\<close>

theorem classify_by_leading_glyph_witness:
  "startsWith (failGlyph @ ascii '' bad '' @ warnGlyph) failGlyph \<and>
   classify (failGlyph @ ascii '' bad '' @ warnGlyph) = ClsError \<and>
   \<not> startsWith (ascii ''ok'') failGlyph \<and> \<not> startsWith (ascii ''ok'') warnGlyph \<and>
   \<not> startsWith (ascii ''ok'') aiGlyph \<and> classify (ascii ''ok'') = ClsSuccess \<and>
   take 2 (warnGlyph @ ascii '' a'') = take 2 (warnGlyph @ ascii '' b'') \<and>
   classify (warnGlyph @ ascii '' a'') = classify (warnGlyph @ ascii '' b'')"
proof -
  have a: "startsWith (failGlyph @ ascii '' bad '' @ warnGlyph) failGlyph"
    by (rule startsWith_append)
  have b: "\<not> startsWith (ascii ''ok'') failGlyph" "\<not> startsWith (ascii ''ok'') warnGlyph"
    "\<not> startsWith (ascii ''ok'') aiGlyph"
    by (simp_all add: startsWith_def ascii_def failGlyph_def warnGlyph_def aiGlyph_def)
  have c: "take 2 (warnGlyph @ ascii '' a'') = take 2 (warnGlyph @ ascii '' b'')"
    by (simp add: warnGlyph_def)
  from a classify_by_leading_glyph [of "ascii '' bad '' @ warnGlyph" "failGlyph @ ascii '' bad '' @ warnGlyph"]
  have "classify (failGlyph @ ascii '' bad '' @ warnGlyph) = ClsError" by blast
  moreover from b classify_by_leading_glyph [of "[]" "ascii ''ok''"]
  have "classify (ascii ''ok'') = ClsSuccess" by blast
  moreover from c classify_by_leading_glyph [of "[]" "warnGlyph @ ascii '' a''" "warnGlyph @ ascii '' b''"]
  have "classify (warnGlyph @ ascii '' a'') = classify (warnGlyph @ ascii '' b'')" by blast
  ultimately show ?thesis using a b c by simp
qed

subsection \<open>AI patch applier\<close>

lemma foldl_appendChild:
  "foldl appendChild c msgs =
     c\<lparr>validationList := validationList c @ map (\<lambda>msg. \<lparr>li_class = ClsAiMsg, li_text = msg\<rparr>) msgs\<rparr>"
  by (induction msgs arbitrary: c) (simp_all add: appendChild_def)

lemma length_patchCard: "length (patchCard k item cards) = length cards"
  by (simp add: patchCard_def Let_def)

lemma nth_patchCard:
  "i < length cards \<Longrightarrow>
   patchCard k item cards ! i =
     (if i = k then (cards ! i)\<lparr>validationList := validationList (cards ! i) @ aiItems item\<rparr>
      else cards ! i)"
  by (simp add: patchCard_def Let_def foldl_appendChild aiItems_def nth_list_update)

lemma patchCard_beyond: "length cards \<le> k \<Longrightarrow> patchCard k item cards = cards"
  by (simp add: patchCard_def Let_def)

lemma length_patchFrom: "length (patchFrom k rs cards) = length cards"
  by (induction rs arbitrary: k cards) (simp_all add: length_patchCard)

lemma patchFrom_beyond: "length cards \<le> k \<Longrightarrow> patchFrom k rs cards = cards"
  by (induction rs arbitrary: k) (simp_all add: patchCard_beyond)

lemma nth_patchFrom:
  "i < length cards \<Longrightarrow>
   patchFrom k rs cards ! i =
     (if k \<le> i \<and> i < k + length rs
      then (cards ! i)\<lparr>validationList := validationList (cards ! i) @ aiItems (rs ! (i - k))\<rparr>
      else cards ! i)"
proof (induction rs arbitrary: k cards)
  case Nil
  show ?case by auto
next
  case (Cons item rest)
  from Cons.prems have i: "i < length (patchCard k item cards)"
    by (simp add: length_patchCard)
  have "patchFrom k (item # rest) cards ! i = patchFrom (Suc k) rest (patchCard k item cards) ! i"
    by simp
  also have "\<dots> =
     (if Suc k \<le> i \<and> i < Suc k + length rest
      then (patchCard k item cards ! i)
             \<lparr>validationList := validationList (patchCard k item cards ! i)
                @ aiItems (rest ! (i - Suc k))\<rparr>
      else patchCard k item cards ! i)"
    by (rule Cons.IH [OF i])
  also have "\<dots> =
     (if k \<le> i \<and> i < k + length (item # rest)
      then (cards ! i)\<lparr>validationList := validationList (cards ! i)
                @ aiItems ((item # rest) ! (i - k))\<rparr>
      else cards ! i)"
    using Cons.prems by (auto simp: nth_patchCard Suc_diff_Suc nth_Cons')
  finally show ?case .
qed

lemma patchFrom_take:
  "patchFrom k (take (length cards - k) rs) cards = patchFrom k rs cards"
proof (induction rs arbitrary: k cards)
  case Nil
  show ?case by simp
next
  case (Cons item rest)
  show ?case
  proof (cases "k < length cards")
    case True
    then obtain d where d: "length cards - k = Suc d" by (cases "length cards - k") auto
    then have "d = length (patchCard k item cards) - Suc k" by (simp add: length_patchCard)
    with d Cons.IH [of "Suc k" "patchCard k item cards"] show ?thesis by simp
  next
    case False
    then show ?thesis by (simp add: patchFrom_beyond patchCard_beyond)
  qed
qed

text \<open>
  Claim C7. Patching keeps the number of cards and the query of each card; card \<open>i\<close> ends
  with its original items, in their order, followed by the AI-tagged messages of
  \<open>aiResults ! i\<close> in their order (none when the AI answer is shorter); the results beyond the
  last card change nothing.
\<close>

theorem patch_additive:
  "length (applyPerQueryInsights aiResults cards) = length cards \<and>
   (\<forall>i < length cards.
      card_query (applyPerQueryInsights aiResults cards ! i) = card_query (cards ! i) \<and>
      validationList (applyPerQueryInsights aiResults cards ! i) =
        validationList (cards ! i) @ (if i < length aiResults then aiItems (aiResults ! i) else [])) \<and>
   applyPerQueryInsights aiResults cards =
     applyPerQueryInsights (take (length cards) aiResults) cards"
proof (intro conjI allI impI)
  show "length (applyPerQueryInsights aiResults cards) = length cards"
    by (simp add: applyPerQueryInsights_def length_patchFrom)
next
  fix i assume "i < length cards"
  then show "card_query (applyPerQueryInsights aiResults cards ! i) = card_query (cards ! i)"
    by (simp add: applyPerQueryInsights_def nth_patchFrom)
next
  fix i assume "i < length cards"
  then show "validationList (applyPerQueryInsights aiResults cards ! i) =
        validationList (cards ! i) @ (if i < length aiResults then aiItems (aiResults ! i) else [])"
    by (simp add: applyPerQueryInsights_def nth_patchFrom)
next
  show "applyPerQueryInsights aiResults cards =
     applyPerQueryInsights (take (length cards) aiResults) cards"
    using patchFrom_take [of 0 cards aiResults] by (simp add: applyPerQueryInsights_def)
qed

subsection \<open>Runs of the submit handler\<close>

lemma blocks_iff: "blocks s p = (lastFingerprint p = Some (computeFingerprint s))"
  by (auto simp: blocks_def onSubmit_def Let_def)

lemma submit_blocked:
  "lastFingerprint p = Some (computeFingerprint s) \<Longrightarrow>
   submit s outcome p =
     (p\<lparr>warningDisplay := DisplayBlock, warningText := duplicateMessage\<rparr>,
      [WarningCleared, WarningShown])"
  by (simp add: submit_def onSubmit_def clearWarning_def showWarning_def)

lemma submit_rejected:
  "lastFingerprint p \<noteq> Some (computeFingerprint s) \<Longrightarrow>
   submit s Rejected p =
     (p\<lparr>warningDisplay := DisplayNone, warningText := [], downloadDisplay := DisplayNone,
        downloadOnclick := None, resultsDisplay := DisplayBlock,
        validationOutput := Html genericErrorHtml\<rparr>,
      [WarningCleared, Disarmed, ResultsShown, OutputSet (Html validatingHtml),
       Requested Validate s, OutputSet (Html genericErrorHtml)])"
  by (auto simp: submit_def onSubmit_def onStaticSettled_def clearWarning_def disarm_def
      showResults_def setOutput_def request_def)

lemma submit_error:
  "lastFingerprint p \<noteq> Some (computeFingerprint s) \<Longrightarrow> truthyString (vr_error d) = Some e \<Longrightarrow>
   submit s (Fulfilled d) p =
     (p\<lparr>warningDisplay := DisplayNone, warningText := [], downloadDisplay := DisplayNone,
        downloadOnclick := None, resultsDisplay := DisplayBlock,
        validationOutput := Html (errorParagraph e)\<rparr>,
      [WarningCleared, Disarmed, ResultsShown, OutputSet (Html validatingHtml),
       Requested Validate s, OutputSet (Html (errorParagraph e))])"
  by (auto simp: submit_def onSubmit_def onStaticSettled_def clearWarning_def disarm_def
      showResults_def setOutput_def request_def)

lemma submit_unrenderable:
  "lastFingerprint p \<noteq> Some (computeFingerprint s) \<Longrightarrow> truthyString (vr_error d) = None \<Longrightarrow>
   renderStatic d = None \<Longrightarrow>
   submit s (Fulfilled d) p =
     (p\<lparr>warningDisplay := DisplayNone, warningText := [], downloadDisplay := DisplayNone,
        downloadOnclick := None, resultsDisplay := DisplayBlock,
        lastFingerprint := Some (computeFingerprint s),
        validationOutput := Html genericErrorHtml\<rparr>,
      [WarningCleared, Disarmed, ResultsShown, OutputSet (Html validatingHtml),
       Requested Validate s, Committed (computeFingerprint s), OutputSet (Html genericErrorHtml)])"
  by (auto simp: submit_def onSubmit_def onStaticSettled_def staticDone_def clearWarning_def
      disarm_def showResults_def setOutput_def request_def commit_def)

lemma submit_done:
  "lastFingerprint p \<noteq> Some (computeFingerprint s) \<Longrightarrow> truthyString (vr_error d) = None \<Longrightarrow>
   renderStatic d = Some rep \<Longrightarrow>
   submit s (Fulfilled d) p =
     (case truthyString (vr_pdf_url d) of
        None \<Rightarrow>
          (p\<lparr>warningDisplay := DisplayNone, warningText := [], downloadDisplay := DisplayNone,
             downloadOnclick := None, resultsDisplay := DisplayBlock,
             lastFingerprint := Some (computeFingerprint s),
             validationOutput := Report rep\<rparr>,
           [WarningCleared, Disarmed, ResultsShown, OutputSet (Html validatingHtml),
            Requested Validate s, Committed (computeFingerprint s), OutputSet (Report rep),
            Requested AnalyzeAI s])
      | Some url \<Rightarrow>
          (p\<lparr>warningDisplay := DisplayNone, warningText := [],
             downloadDisplay := DisplayInlineBlock,
             downloadOnclick := Some (OpenLocation url), resultsDisplay := DisplayBlock,
             lastFingerprint := Some (computeFingerprint s),
             validationOutput := Report rep\<rparr>,
           [WarningCleared, Disarmed, ResultsShown, OutputSet (Html validatingHtml),
            Requested Validate s, Committed (computeFingerprint s), OutputSet (Report rep),
            Armed url, Requested AnalyzeAI s]))"
  by (auto simp: submit_def onSubmit_def onStaticSettled_def staticDone_def clearWarning_def
      disarm_def showResults_def setOutput_def request_def commit_def arm_def
      split: option.splits)

lemma lastFingerprint_committed:
  "truthyString (vr_error d) = None \<Longrightarrow>
   lastFingerprint (fst (submit s (Fulfilled d) p)) = Some (computeFingerprint s)"
proof (cases "lastFingerprint p = Some (computeFingerprint s)")
  case True
  then show ?thesis by (simp add: submit_blocked)
next
  case False
  assume "truthyString (vr_error d) = None"
  with False show ?thesis
    by (cases "renderStatic d")
      (auto simp: submit_unrenderable submit_done split: option.splits)
qed

subsection \<open>Patching at concrete inputs\<close>

text \<open>
  The theorem at two rendered cards and an AI answer of three results: the second card gains
  the one AI-tagged message of its result, after its three rendered items.
\<close>

theorem patch_additive_witness:
  "(1::nat) < length (map renderCard [plainResult, plainResult]) \<and>
   length (applyPerQueryInsights [hintResult, plainResult, hintResult]
             (map renderCard [plainResult, plainResult])) = 2 \<and>
   validationList (applyPerQueryInsights [hintResult, plainResult, hintResult]
                     (map renderCard [plainResult, plainResult]) ! 1) =
     map renderItem (validations plainResult) @
     [\<lparr>li_class = ClsAiMsg, li_text = aiGlyph @ ascii '' use a join''\<rparr>]"
proof -
  let ?ai = "[hintResult, plainResult, hintResult]"
  let ?cards = "map renderCard [plainResult, plainResult]"
  have i: "(1::nat) < length ?cards" by simp
  from patch_additive [of ?ai ?cards]
  have len: "length (applyPerQueryInsights ?ai ?cards) = length ?cards"
    and nth: "\<forall>i<length ?cards.
      validationList (applyPerQueryInsights ?ai ?cards ! i) =
        validationList (?cards ! i) @ (if i < length ?ai then aiItems (?ai ! i) else [])"
    by blast+
  from nth i have "validationList (applyPerQueryInsights ?ai ?cards ! 1) =
        validationList (?cards ! 1) @ (if 1 < length ?ai then aiItems (?ai ! 1) else [])"
    by blast
  moreover have "aiItems plainResult = [\<lparr>li_class = ClsAiMsg, li_text = aiGlyph @ ascii '' use a join''\<rparr>]"
    by (simp add: aiItems_def plainResult_def startsWith_def aiGlyph_def warnGlyph_def ascii_def)
  ultimately show ?thesis using len by (simp add: renderCard_def)
qed

text \<open>
  Claim C8 fails on the code. The static answer already carries a message with the AI glyph
  (the renderer has the class \<^verbatim>\<open>ai-msg\<close> for it), the answer of \<^verbatim>\<open>/analyze_ai\<close> carries the
  same message for the same query, and the patch appends it a second time: the check
  announced by the comment of line 303 is not there.
\<close>

theorem patch_repeats_rendered_message:
  "map validationList (cardsOf (fst (submit formA (Fulfilled hintStatic) freshPage))) =
     [[\<lparr>li_class = ClsAiMsg, li_text = aiGlyph @ ascii '' add an index''\<rparr>]] \<and>
   map validationList
     (cardsOf (onAISettled (Fulfilled hintAi) (fst (submit formA (Fulfilled hintStatic) freshPage)))) =
     [[\<lparr>li_class = ClsAiMsg, li_text = aiGlyph @ ascii '' add an index''\<rparr>,
       \<lparr>li_class = ClsAiMsg, li_text = aiGlyph @ ascii '' add an index''\<rparr>]]"
proof -
  have r: "renderStatic hintStatic =
     Some \<lparr>loadingDisplay = DisplayUnset, loadingContent = Thinking, aiSummaryContainer = [],
           summaryList = \<lparr>total = 1, passed = 1, failed = 0\<rparr>,
           cardContainer = [\<lparr>card_query = ascii ''SELECT 1'',
              validationList = [\<lparr>li_class = ClsAiMsg, li_text = aiGlyph @ ascii '' add an index''\<rparr>]\<rparr>]\<rparr>"
    by (simp add: renderStatic_def hintStatic_def hintResult_def renderCard_def renderItem_def
        classify_def startsWith_def aiGlyph_def failGlyph_def warnGlyph_def)
  have e: "truthyString (vr_error hintStatic) = None" "truthyString (vr_pdf_url hintStatic) = None"
    by (simp_all add: truthyString_def hintStatic_def)
  have f: "lastFingerprint freshPage \<noteq> Some (computeFingerprint formA)"
    by (simp add: freshPage_def)
  have s: "validationOutput (fst (submit formA (Fulfilled hintStatic) freshPage)) =
     Report \<lparr>loadingDisplay = DisplayUnset, loadingContent = Thinking, aiSummaryContainer = [],
           summaryList = \<lparr>total = 1, passed = 1, failed = 0\<rparr>,
           cardContainer = [\<lparr>card_query = ascii ''SELECT 1'',
              validationList = [\<lparr>li_class = ClsAiMsg, li_text = aiGlyph @ ascii '' add an index''\<rparr>]\<rparr>]\<rparr>"
    by (simp add: submit_done [OF f e(1) r] e(2))
  have p: "patchCard 0 hintResult [\<lparr>card_query = ascii ''SELECT 1'',
              validationList = [\<lparr>li_class = ClsAiMsg, li_text = aiGlyph @ ascii '' add an index''\<rparr>]\<rparr>]
     = [\<lparr>card_query = ascii ''SELECT 1'',
              validationList = [\<lparr>li_class = ClsAiMsg, li_text = aiGlyph @ ascii '' add an index''\<rparr>,
                \<lparr>li_class = ClsAiMsg, li_text = aiGlyph @ ascii '' add an index''\<rparr>]\<rparr>]"
    by (simp add: patchCard_def hintResult_def startsWith_def aiGlyph_def appendChild_def)
  show ?thesis
    by (simp add: cardsOf_def s onAISettled_def aiThen_def hintAi_def truthyString_def
        applyPerQueryInsights_def p)
qed

subsection \<open>Guard, pipeline and download gate\<close>

lemma requests_simps:
  "requests [] = []"
  "requests (Requested ep fd # tr) = (ep, fd) # requests tr"
  "requests (WarningCleared # tr) = requests tr"
  "requests (WarningShown # tr) = requests tr"
  "requests (Disarmed # tr) = requests tr"
  "requests (ResultsShown # tr) = requests tr"
  "requests (OutputSet c # tr) = requests tr"
  "requests (Committed fp # tr) = requests tr"
  "requests (Armed url # tr) = requests tr"
  by (simp_all add: requests_def)

lemma submit_unblocked_requests:
  assumes "lastFingerprint p \<noteq> Some (computeFingerprint s)"
  shows "\<exists>rest. requests (snd (submit s outcome p)) = (Validate, s) # rest"
proof (cases outcome)
  case Rejected
  with assms show ?thesis by (simp add: submit_rejected requests_simps)
next
  case (Fulfilled d)
  show ?thesis
  proof (cases "truthyString (vr_error d)")
    case (Some e)
    with assms Fulfilled show ?thesis by (simp add: submit_error requests_simps)
  next
    case None
    with assms Fulfilled show ?thesis
      by (cases "renderStatic d")
        (auto simp: submit_unrenderable submit_done requests_simps split: option.splits)
  qed
qed


text \<open>
  Claim C3. After a submission whose static answer decoded without error, a submission with
  the same fingerprint is blocked: the warning is shown and no request is issued. After a
  submission that went to the network and failed there, by a rejected request or by a decoded
  error, a submission with the same fingerprint is not blocked and issues its request.
\<close>

theorem duplicate_guard:
  "(truthyString (vr_error d) = None \<and> computeFingerprint s2 = computeFingerprint s1 \<longrightarrow>
      blocks s2 (fst (submit s1 (Fulfilled d) p)) \<and>
      warningDisplay (fst (submit s2 outcome2 (fst (submit s1 (Fulfilled d) p)))) = DisplayBlock \<and>
      warningText (fst (submit s2 outcome2 (fst (submit s1 (Fulfilled d) p)))) = duplicateMessage \<and>
      requests (snd (submit s2 outcome2 (fst (submit s1 (Fulfilled d) p)))) = []) \<and>
   (\<not> blocks s1 p \<and> (failure = Rejected \<or> (\<exists>e. truthyString (vr_error d) = Some e \<and> failure = Fulfilled d)) \<and>
    computeFingerprint s2 = computeFingerprint s1 \<longrightarrow>
      \<not> blocks s2 (fst (submit s1 failure p)) \<and>
      (\<exists>rest. requests (snd (submit s2 outcome2 (fst (submit s1 failure p)))) = (Validate, s2) # rest))"
proof (intro conjI impI)
  assume a: "truthyString (vr_error d) = None \<and> computeFingerprint s2 = computeFingerprint s1"
  let ?p1 = "fst (submit s1 (Fulfilled d) p)"
  from a have lf: "lastFingerprint ?p1 = Some (computeFingerprint s2)"
    by (simp add: lastFingerprint_committed)
  then show "blocks s2 ?p1" by (simp add: blocks_iff)
  from lf show "warningDisplay (fst (submit s2 outcome2 ?p1)) = DisplayBlock"
    by (simp add: submit_blocked)
  from lf show "warningText (fst (submit s2 outcome2 ?p1)) = duplicateMessage"
    by (simp add: submit_blocked)
  from lf show "requests (snd (submit s2 outcome2 ?p1)) = []"
    by (simp add: submit_blocked requests_simps)
next
  assume a: "\<not> blocks s1 p \<and> (failure = Rejected \<or> (\<exists>e. truthyString (vr_error d) = Some e \<and> failure = Fulfilled d)) \<and>
    computeFingerprint s2 = computeFingerprint s1"
  let ?p1 = "fst (submit s1 failure p)"
  from a have nb: "lastFingerprint p \<noteq> Some (computeFingerprint s1)" by (simp add: blocks_iff)
  from a have "lastFingerprint ?p1 = lastFingerprint p"
    by (auto simp: submit_rejected [OF nb] submit_error [OF nb])
  with nb a have nb2: "lastFingerprint ?p1 \<noteq> Some (computeFingerprint s2)" by simp
  then show "\<not> blocks s2 ?p1" by (simp add: blocks_iff)
  from nb2 show "\<exists>rest. requests (snd (submit s2 outcome2 ?p1)) = (Validate, s2) # rest"
    by (rule submit_unblocked_requests)
qed

text \<open>
  Claim C10. A blocked submission changes the warning element and nothing else:
  \<^verbatim>\<open>lastFingerprint\<close>, the results, the output and the download control with its binding are
  those of the page before, and the run consists of the two writes to the warning.
\<close>

theorem blocked_submit_frame:
  assumes "blocks s p"
  shows "submit s outcome p =
           (p\<lparr>warningDisplay := DisplayBlock, warningText := duplicateMessage\<rparr>,
            [WarningCleared, WarningShown]) \<and>
         lastFingerprint (fst (submit s outcome p)) = lastFingerprint p \<and>
         resultsDisplay (fst (submit s outcome p)) = resultsDisplay p \<and>
         validationOutput (fst (submit s outcome p)) = validationOutput p \<and>
         downloadDisplay (fst (submit s outcome p)) = downloadDisplay p \<and>
         downloadOnclick (fst (submit s outcome p)) = downloadOnclick p"
proof -
  from assms have "lastFingerprint p = Some (computeFingerprint s)" by (simp add: blocks_iff)
  then show ?thesis by (simp add: submit_blocked)
qed

text \<open>
  Claim C5. On a static answer that decodes without error and renders, the run of the handler
  is, in this order: the commit of \<^verbatim>\<open>lastFingerprint\<close>, the write of the rendered report, the
  arming of the download gate when \<^verbatim>\<open>pdf_url\<close> is present, and the request to
  \<^verbatim>\<open>/analyze_ai\<close>, which is its last event. The handler takes no outcome of that request: it
  ends with the report as rendered, the placeholder still in place, and the continuation
  \<open>onAISettled\<close> runs on its own when the request settles.
\<close>

theorem static_success_order:
  assumes "\<not> blocks s p" and "truthyString (vr_error d) = None" and "renderStatic d = Some rep"
  shows "snd (submit s (Fulfilled d) p) =
           [WarningCleared, Disarmed, ResultsShown, OutputSet (Html validatingHtml),
            Requested Validate s, Committed (computeFingerprint s), OutputSet (Report rep)]
           @ (case truthyString (vr_pdf_url d) of Some url \<Rightarrow> [Armed url] | None \<Rightarrow> [])
           @ [Requested AnalyzeAI s] \<and>
         last (snd (submit s (Fulfilled d) p)) = Requested AnalyzeAI s \<and>
         lastFingerprint (fst (submit s (Fulfilled d) p)) = Some (computeFingerprint s) \<and>
         validationOutput (fst (submit s (Fulfilled d) p)) = Report rep \<and>
         loadingContent rep = Thinking"
proof -
  from assms(1) have nb: "lastFingerprint p \<noteq> Some (computeFingerprint s)"
    by (simp add: blocks_iff)
  from assms(3) have "loadingContent rep = Thinking"
    by (auto simp: renderStatic_def split: option.splits)
  then show ?thesis
    by (simp add: submit_done [OF nb assms(2,3)] split: option.splits)
qed

text \<open>
  Claim C9. A submission that the guard lets through has the download control disarmed when
  it suspends at the static request. When the handler has finished, the control is armed
  only if the static answer decoded without error and supplied a \<^verbatim>\<open>pdf_url\<close>, and then to
  that address; after a rejected request, a decoded error or an answer without \<^verbatim>\<open>pdf_url\<close>
  it is disarmed.
\<close>

theorem download_gate:
  "(\<not> blocks s p \<longrightarrow> disarmed (fst (fst (onSubmit s p)))) \<and>
   (\<not> blocks s p \<and> armedTo url (fst (submit s outcome p)) \<longrightarrow>
      (\<exists>d. outcome = Fulfilled d \<and> truthyString (vr_error d) = None \<and>
           truthyString (vr_pdf_url d) = Some url)) \<and>
   (\<not> blocks s p \<and> outcome = Rejected \<longrightarrow> disarmed (fst (submit s outcome p))) \<and>
   (\<not> blocks s p \<and> outcome = Fulfilled d \<and> truthyString (vr_error d) \<noteq> None \<longrightarrow>
      disarmed (fst (submit s outcome p))) \<and>
   (\<not> blocks s p \<and> outcome = Fulfilled d \<and> truthyString (vr_pdf_url d) = None \<longrightarrow>
      disarmed (fst (submit s outcome p))) \<and>
   (\<not> blocks s p \<and> outcome = Fulfilled d \<and> truthyString (vr_error d) = None \<and>
    renderStatic d \<noteq> None \<and> truthyString (vr_pdf_url d) = Some url \<longrightarrow>
      armedTo url (fst (submit s outcome p)))"
proof -
  have start: "disarmed (fst (fst (onSubmit s p)))" if "\<not> blocks s p"
    using that
    by (simp add: blocks_iff onSubmit_def Let_def clearWarning_def disarm_def showResults_def
        setOutput_def request_def disarmed_def)
  have gate: "(case outcome of
                 Rejected \<Rightarrow> disarmed (fst (submit s outcome p))
               | Fulfilled d \<Rightarrow>
                   (case truthyString (vr_error d) of
                      Some e \<Rightarrow> disarmed (fst (submit s outcome p))
                    | None \<Rightarrow>
                        (case renderStatic d of
                           None \<Rightarrow> disarmed (fst (submit s outcome p))
                         | Some rep \<Rightarrow>
                             (case truthyString (vr_pdf_url d) of
                                None \<Rightarrow> disarmed (fst (submit s outcome p))
                              | Some u \<Rightarrow> armedTo u (fst (submit s outcome p))))))"
    if "\<not> blocks s p"
  proof -
    from that have nb: "lastFingerprint p \<noteq> Some (computeFingerprint s)"
      by (simp add: blocks_iff)
    show ?thesis
      by (auto simp: submit_rejected [OF nb] submit_error [OF nb] submit_unrenderable [OF nb]
          submit_done [OF nb] disarmed_def armedTo_def split: settled.splits option.splits)
  qed
  have excl: "\<not> (disarmed q \<and> armedTo u q)" for q u
    by (auto simp: disarmed_def armedTo_def)
  have inj: "armedTo u q \<Longrightarrow> armedTo u' q \<Longrightarrow> u = u'" for q u u'
    by (auto simp: armedTo_def)
  show ?thesis
  proof (cases "blocks s p")
    case True
    then show ?thesis by simp
  next
    case False
    note g = gate [OF False]
    show ?thesis
    proof (cases outcome)
      case Rejected
      with g start [OF False] False excl show ?thesis by auto
    next
      case (Fulfilled d')
      with g start [OF False] False excl inj show ?thesis
        by (auto split: option.splits)
    qed
  qed
qed

text \<open>
  Claim C4, as amended. On a page that shows a report, a rejected AI request empties the
  placeholder, and a decoded AI answer with an error puts the message
  \<^verbatim>\<open>AI Analysis failed\<close> with that error into it. In both cases the summary and the cards of the
  report, \<^verbatim>\<open>lastFingerprint\<close> and the download control are unchanged.
\<close>

theorem ai_failure_frame:
  assumes "validationOutput p = Report rep"
  shows "onAISettled Rejected p =
           p\<lparr>validationOutput := Report (rep\<lparr>loadingContent := InnerText []\<rparr>)\<rparr> \<and>
         (truthyString (ar_error aiData) = Some e \<longrightarrow>
            onAISettled (Fulfilled aiData) p =
              p\<lparr>validationOutput := Report (rep\<lparr>loadingContent := InnerHTML (aiFailedHtml e)\<rparr>)\<rparr> \<and>
            showsNotice (InnerHTML (aiFailedHtml e))) \<and>
         (failure = Rejected \<or> (\<exists>e. truthyString (ar_error aiData) = Some e \<and> failure = Fulfilled aiData) \<longrightarrow>
            cardsOf (onAISettled failure p) = cardContainer rep \<and>
            (\<exists>rep'. validationOutput (onAISettled failure p) = Report rep' \<and>
               summaryList rep' = summaryList rep \<and> cardContainer rep' = cardContainer rep) \<and>
            lastFingerprint (onAISettled failure p) = lastFingerprint p \<and>
            downloadDisplay (onAISettled failure p) = downloadDisplay p \<and>
            downloadOnclick (onAISettled failure p) = downloadOnclick p)"
  using assms
  by (auto simp: onAISettled_def aiCatch_def aiThen_def cardsOf_def showsNotice_def
      aiFailedHtml_def ascii_def)

text \<open>
  Claim C4 as stated fails: after the static phase of the end-to-end scenario a rejected AI
  request leaves the placeholder with the empty text, which is no failure notice.
\<close>

theorem ai_raise_leaves_no_notice:
  "placeholderOf (onAISettled Rejected (fst (submit formA (Fulfilled responseA) freshPage))) =
     Some (InnerText []) \<and>
   \<not> showsNotice (InnerText [])"
proof -
  have f: "lastFingerprint freshPage \<noteq> Some (computeFingerprint formA)"
    by (simp add: freshPage_def)
  have e: "truthyString (vr_error responseA) = None"
    by (simp add: truthyString_def responseA_def)
  obtain rep where r: "renderStatic responseA = Some rep"
    by (simp add: renderStatic_def responseA_def)
  have "validationOutput (fst (submit formA (Fulfilled responseA) freshPage)) = Report rep"
    by (simp add: submit_done [OF f e r] split: option.splits)
  then show ?thesis
    by (simp add: placeholderOf_def onAISettled_def aiCatch_def showsNotice_def)
qed

subsection \<open>The end-to-end scenario\<close>

lemma fresh_unblocked: "\<not> blocks s freshPage"
  by (simp add: blocks_iff freshPage_def)

lemma responseA_ok: "truthyString (vr_error responseA) = None"
  "truthyString (vr_pdf_url responseA) = Some (ascii ''/r/1.pdf'')"
  by (simp_all add: truthyString_def responseA_def ascii_def)

lemma errorResponse_error: "truthyString (vr_error errorResponse) = Some (ascii ''empty file'')"
  by (simp add: truthyString_def errorResponse_def ascii_def)

lemma render_responseA: "renderStatic responseA = Some reportA"
  by (simp add: renderStatic_def responseA_def reportA_def renderCard_def renderItem_def
      classify_def startsWith_def failGlyph_def)

lemma pageA_eq:
  "pageA =
     \<lparr>lastFingerprint = Some (computeFingerprint formA), warningDisplay = DisplayNone,
      warningText = [], resultsDisplay = DisplayBlock, validationOutput = Report reportA,
      downloadDisplay = DisplayInlineBlock,
      downloadOnclick = Some (OpenLocation (ascii ''/r/1.pdf''))\<rparr>"
proof -
  have nb: "lastFingerprint freshPage \<noteq> Some (computeFingerprint formA)"
    by (simp add: freshPage_def)
  have "pageA =
     freshPage\<lparr>warningDisplay := DisplayNone, warningText := [],
       downloadDisplay := DisplayInlineBlock,
       downloadOnclick := Some (OpenLocation (ascii ''/r/1.pdf'')),
       resultsDisplay := DisplayBlock, lastFingerprint := Some (computeFingerprint formA),
       validationOutput := Report reportA\<rparr>"
    unfolding pageA_def
    by (simp add: submit_done [OF nb responseA_ok(1) render_responseA] responseA_ok(2))
  then show ?thesis by (simp add: freshPage_def)
qed

lemma fingerprint_formA:
  "computeFingerprint formA = ascii ''A|a@x.com|T|CR1|q.sql|10|1000''"
  by (simp add: computeFingerprint_def components_def formA_def separator_def ascii_def
      numberToString_def digits.simps digit_def)

lemma fingerprint_formB:
  "computeFingerprint formB = ascii ''A|a@x.com|U|CR1|q.sql|10|1000''"
  by (simp add: computeFingerprint_def components_def formB_def formA_def separator_def
      ascii_def numberToString_def digits.simps digit_def)

lemma formB_unblocked: "\<not> blocks formB pageA"
  by (simp add: blocks_iff pageA_eq fingerprint_formA fingerprint_formB ascii_def)

lemma formA_blocked: "blocks formA pageA"
  by (simp add: blocks_iff pageA_eq)


text \<open>
  The first form twice on a fresh page: blocked after a success, not blocked after the error
  answer and after a rejection.
\<close>

theorem duplicate_guard_witness:
  "truthyString (vr_error responseA) = None \<and>
   blocks formA (fst (submit formA (Fulfilled responseA) freshPage)) \<and>
   requests (snd (submit formA (Fulfilled responseA)
                    (fst (submit formA (Fulfilled responseA) freshPage)))) = [] \<and>
   \<not> blocks formA freshPage \<and>
   truthyString (vr_error errorResponse) = Some (ascii ''empty file'') \<and>
   \<not> blocks formA (fst (submit formA (Fulfilled errorResponse) freshPage)) \<and>
   \<not> blocks formA (fst (submit formA Rejected freshPage))"
proof -
  from duplicate_guard [where d = responseA and ?s1.0 = formA and ?s2.0 = formA
      and p = freshPage and ?outcome2.0 = "Fulfilled responseA"] responseA_ok(1)
  have a: "blocks formA (fst (submit formA (Fulfilled responseA) freshPage))"
    "requests (snd (submit formA (Fulfilled responseA)
                    (fst (submit formA (Fulfilled responseA) freshPage)))) = []"
    by blast+
  from duplicate_guard [where d = errorResponse and ?s1.0 = formA and ?s2.0 = formA
      and p = freshPage and failure = "Fulfilled errorResponse"]
    errorResponse_error fresh_unblocked [of formA]
  have b: "\<not> blocks formA (fst (submit formA (Fulfilled errorResponse) freshPage))"
    by blast
  from duplicate_guard [where ?s1.0 = formA and ?s2.0 = formA
      and p = freshPage and failure = Rejected] fresh_unblocked [of formA]
  have c: "\<not> blocks formA (fst (submit formA Rejected freshPage))"
    by blast
  from a b c responseA_ok(1) errorResponse_error fresh_unblocked [of formA]
  show ?thesis by simp
qed

text \<open>
  The first form again on the page that has validated it: the report and the binding of the
  download control stay.
\<close>

theorem blocked_submit_frame_witness:
  "blocks formA pageA \<and>
   submit formA Rejected pageA =
     (pageA\<lparr>warningDisplay := DisplayBlock, warningText := duplicateMessage\<rparr>,
      [WarningCleared, WarningShown]) \<and>
   validationOutput (fst (submit formA Rejected pageA)) = Report reportA \<and>
   downloadOnclick (fst (submit formA Rejected pageA)) = Some (OpenLocation (ascii ''/r/1.pdf''))"
proof -
  have o: "validationOutput pageA = Report reportA"
    "downloadOnclick pageA = Some (OpenLocation (ascii ''/r/1.pdf''))"
    by (simp_all add: pageA_eq)
  from blocked_submit_frame [OF formA_blocked, of Rejected]
  have "submit formA Rejected pageA =
     (pageA\<lparr>warningDisplay := DisplayBlock, warningText := duplicateMessage\<rparr>,
      [WarningCleared, WarningShown])"
    and "validationOutput (fst (submit formA Rejected pageA)) = validationOutput pageA"
    and "downloadOnclick (fst (submit formA Rejected pageA)) = downloadOnclick pageA"
    by blast+
  with o formA_blocked show ?thesis by simp
qed

text \<open>
  The first form on a fresh page: the two requests with the commit, the render and the arming
  between them.
\<close>

theorem static_success_order_witness:
  "\<not> blocks formA freshPage \<and> truthyString (vr_error responseA) = None \<and>
   renderStatic responseA = Some reportA \<and>
   snd (submit formA (Fulfilled responseA) freshPage) =
     [WarningCleared, Disarmed, ResultsShown, OutputSet (Html validatingHtml),
      Requested Validate formA, Committed (computeFingerprint formA), OutputSet (Report reportA),
      Armed (ascii ''/r/1.pdf''), Requested AnalyzeAI formA]"
proof -
  from static_success_order [OF fresh_unblocked responseA_ok(1) render_responseA, of formA]
  have "snd (submit formA (Fulfilled responseA) freshPage) =
     [WarningCleared, Disarmed, ResultsShown, OutputSet (Html validatingHtml),
      Requested Validate formA, Committed (computeFingerprint formA), OutputSet (Report reportA)]
     @ (case truthyString (vr_pdf_url responseA) of Some url \<Rightarrow> [Armed url] | None \<Rightarrow> [])
     @ [Requested AnalyzeAI formA]"
    by blast
  then show ?thesis
    by (simp add: responseA_ok render_responseA fresh_unblocked)
qed

text \<open>
  The second form on a page whose control is armed: disarmed at the start, disarmed after a
  rejection and after the error answer, armed again by an answer with \<^verbatim>\<open>pdf_url\<close>.
\<close>

theorem download_gate_witness:
  "\<not> blocks formB pageA \<and> armedTo (ascii ''/r/1.pdf'') pageA \<and>
   disarmed (fst (fst (onSubmit formB pageA))) \<and>
   disarmed (fst (submit formB Rejected pageA)) \<and>
   disarmed (fst (submit formB (Fulfilled errorResponse) pageA)) \<and>
   armedTo (ascii ''/r/1.pdf'') (fst (submit formB (Fulfilled responseA) pageA))"
proof -
  have ne: "truthyString (vr_error errorResponse) \<noteq> None"
    by (simp add: errorResponse_error)
  have r: "renderStatic responseA \<noteq> None" by (simp add: render_responseA)
  from download_gate [where s = formB and p = pageA and outcome = Rejected] formB_unblocked
  have a: "disarmed (fst (fst (onSubmit formB pageA)))" "disarmed (fst (submit formB Rejected pageA))"
    by blast+
  from download_gate [where s = formB and p = pageA and outcome = "Fulfilled errorResponse"
      and d = errorResponse] formB_unblocked ne
  have b: "disarmed (fst (submit formB (Fulfilled errorResponse) pageA))"
    by blast
  from download_gate [where s = formB and p = pageA and outcome = "Fulfilled responseA"
      and d = responseA and url = "ascii ''/r/1.pdf''"] formB_unblocked responseA_ok r
  have c: "armedTo (ascii ''/r/1.pdf'') (fst (submit formB (Fulfilled responseA) pageA))"
    by blast
  have "armedTo (ascii ''/r/1.pdf'') pageA" by (simp add: armedTo_def pageA_eq)
  with a b c formB_unblocked show ?thesis by simp
qed

text \<open>
  The page of the end-to-end scenario with the answer \<^verbatim>\<open>{error: "model timeout"}\<close>.
\<close>

theorem ai_failure_frame_witness:
  "validationOutput pageA = Report reportA \<and>
   truthyString (ar_error aiTimeout) = Some (ascii ''model timeout'') \<and>
   onAISettled Rejected pageA =
     pageA\<lparr>validationOutput := Report (reportA\<lparr>loadingContent := InnerText []\<rparr>)\<rparr> \<and>
   onAISettled (Fulfilled aiTimeout) pageA =
     pageA\<lparr>validationOutput :=
       Report (reportA\<lparr>loadingContent := InnerHTML (aiFailedHtml (ascii ''model timeout''))\<rparr>)\<rparr> \<and>
   cardsOf (onAISettled (Fulfilled aiTimeout) pageA) = cardContainer reportA"
proof -
  have o: "validationOutput pageA = Report reportA" by (simp add: pageA_eq)
  have e: "truthyString (ar_error aiTimeout) = Some (ascii ''model timeout'')"
    by (simp add: truthyString_def aiTimeout_def ascii_def)
  from ai_failure_frame [OF o, where aiData = aiTimeout and e = "ascii ''model timeout''"
      and failure = "Fulfilled aiTimeout"] e
  show ?thesis using o by blast
qed

end
